theory Spec2Isabelle
  imports Main "HOL-Library.Word"
begin

section \<open>The file descriptor: \<^verbatim>\<open>src/classes/FileData.ts\<close>\<close>

text \<open>
  The class \<^verbatim>\<open>FileData\<close> declares eight public constructor parameter properties and one
  method, \<^verbatim>\<open>save\<close>. It has no other field: in particular it holds no reference to a file
  saver or to an execution context, and no field for a persisted location.

  \<^item> \<^verbatim>\<open>string\<close> fields are \<open>string\<close>; \<^verbatim>\<open>Buffer\<close> is a list of bytes.
  \<^item> \<^verbatim>\<open>MimeType\<close> is imported from \<^verbatim>\<open>../interfaces/file.interface\<close>, which is not among the
    sources: it is the type parameter \<open>'mime\<close>.
  \<^item> \<^verbatim>\<open>number\<close> is the type parameter \<open>'num\<close>: the class only stores the value, so every
    statement about the class holds for whatever a number is (an integer byte count, a
    negative value, a fraction). Where a byte count is computed, \<open>'num\<close> is \<open>int\<close>.
\<close>

type_synonym byte = "8 word"

record ('mime, 'num) FileData =
  originalFileName :: string
  fileName :: string
  fileNameFull :: string
  encoding :: string
  mimetype :: 'mime
  fileExtension :: string
  fileSize :: 'num
  buffer :: "byte list"

text \<open>
  \<^verbatim>\<open>constructor(public originalFileName: string, ..., public buffer: Buffer) {}\<close>:
  each parameter property is assigned from its argument, and the body is empty.
\<close>

definition FileData_new ::
  "string \<Rightarrow> string \<Rightarrow> string \<Rightarrow> string \<Rightarrow> 'mime \<Rightarrow> string \<Rightarrow> 'num \<Rightarrow> byte list
    \<Rightarrow> ('mime, 'num) FileData" where
  "FileData_new originalFileName' fileName' fileNameFull' encoding' mimetype'
      fileExtension' fileSize' buffer' =
    \<lparr> originalFileName = originalFileName',
      fileName = fileName',
      fileNameFull = fileNameFull',
      encoding = encoding',
      mimetype = mimetype',
      fileExtension = fileExtension',
      fileSize = fileSize',
      buffer = buffer' \<rparr>"

subsection \<open>Calling a method: result, receiver and effects\<close>

text \<open>
  A method call is observed through what it returns or throws, through the receiver
  object after the call, and through what it does to the outside: an invocation of a file
  saver (the \<^verbatim>\<open>IFileSaver.save(fileData, context)\<close> of the README) and a write of bytes
  to a path.
\<close>

datatype error = PersistenceError string

datatype effect = SaverInvoked | FileWritten string "byte list"

record ('mime, 'num) outcome =
  returned :: "error + string"
  receiver :: "('mime, 'num) FileData"
  effects :: "effect list"

text \<open>
  \<^verbatim>\<open>save<T = string>(): T { return "" as T; }\<close>: the type assertion has no run-time
  content, so the method returns the empty string. It reads no field, assigns none,
  calls nothing and throws nothing.
\<close>

definition save :: "('mime, 'num) FileData \<Rightarrow> ('mime, 'num) outcome" where
  "save this = \<lparr> returned = Inr '''', receiver = this, effects = [] \<rparr>"

text \<open>The descriptor after a caller has invoked \<^verbatim>\<open>save()\<close> on it \<open>n\<close> times in a row.\<close>

fun after_saves :: "nat \<Rightarrow> ('mime, 'num) FileData \<Rightarrow> ('mime, 'num) FileData" where
  "after_saves 0 d = d"
| "after_saves (Suc n) d = after_saves n (receiver (save d))"

definition saver_invocations :: "effect list \<Rightarrow> nat" where
  "saver_invocations es = length (filter (\<lambda>e. e = SaverInvoked) es)"


section \<open>Parts of the repository that are not among the sources\<close>

text \<open>
  The interceptor and the validation decorators are exported by
  the package (the README imports them) but their files are not among the sources. What
  the properties below need of them is modelled here from the specification.
\<close>

subsection \<open>The interceptor's construction of a descriptor\<close>

text \<open>
  Modelled from the spec: the interceptor is missing from the sources. Section 4.1,
  step 1: a file part has a field name, an original filename, an encoding, a declared MIME
  type and content bytes.
\<close>

record 'mime file_part =
  part_name :: string
  part_filename :: string
  part_encoding :: string
  part_mimetype :: 'mime
  part_content :: "byte list"

text \<open>
  Modelled from the spec: the derivation of the extension, missing with the interceptor.
  Section 4.1, step 2: "the portion after the last \<^verbatim>\<open>.\<close>, empty if none".
\<close>

definition extension_of :: "string \<Rightarrow> string" where
  "extension_of name =
     (if CHR ''.'' \<in> set name then rev (takeWhile (\<lambda>c. c \<noteq> CHR ''.'') (rev name)) else [])"

text \<open>
  Modelled from the spec: the per-file step of the interceptor, missing from the sources.
  Section 4.1, step 2: derive the extension from the original filename; invoke the
  configured naming function with \<open>(context, originalFileName)\<close> to obtain the assigned
  name (without extension), falling back to the original filename if the naming function
  is absent; construct the descriptor. Section 3: the byte size is the length of the
  content buffer at construction time, and the assigned full file name is the assigned
  name with the extension (\<^verbatim>\<open>assignedFileName.extension\<close>, section 6).
\<close>

definition describe_file ::
  "('ctx \<Rightarrow> string \<Rightarrow> string) option \<Rightarrow> 'ctx \<Rightarrow> 'mime file_part \<Rightarrow> ('mime, int) FileData" where
  "describe_file customFileName ctx part =
     (let original = part_filename part;
          extension = extension_of original;
          assigned = (case customFileName of
                        None \<Rightarrow> original
                      | Some naming \<Rightarrow> naming ctx original)
      in FileData_new original assigned (assigned @ ''.'' @ extension) (part_encoding part)
           (part_mimetype part) extension (int (length (part_content part)))
           (part_content part))"

subsection \<open>The validation predicates\<close>

text \<open>
  Modelled from the spec: the validation decorators (\<^verbatim>\<open>IsFileData\<close>, \<^verbatim>\<open>HasMimeType\<close>,
  \<^verbatim>\<open>MinFileSize\<close>, \<^verbatim>\<open>MaxFileSize\<close> in the README) are missing from the sources.
  Section 4.5: a field's value may be a descriptor, or something else (a string,
  undefined, a plain object that is not a descriptor).
\<close>

datatype ('mime, 'num) field_value =
    Undefined
  | Text string
  | PlainObject "(string \<times> string) list"
  | Descriptor "('mime, 'num) FileData"

datatype ('mime, 'num) predicate =
    IsFileData
  | HasMimeType "'mime list"
  | MinFileSize 'num
  | MaxFileSize 'num

text \<open>
  Modelled from the spec: one predicate on one value, missing with the decorators.
  Section 4.5: presence passes iff the value is a descriptor instance; MIME-type
  membership passes iff the descriptor's MIME type is a member of the allow-set; minimum
  (maximum) size passes iff the byte size is at least (at most) the threshold, boundary
  included.
\<close>

fun passes :: "('mime, 'num::ord) predicate \<Rightarrow> ('mime, 'num) field_value \<Rightarrow> bool" where
  "passes IsFileData (Descriptor d) = True"
| "passes (HasMimeType allowed) (Descriptor d) = (mimetype d \<in> set allowed)"
| "passes (MinFileSize threshold) (Descriptor d) = (threshold \<le> fileSize d)"
| "passes (MaxFileSize threshold) (Descriptor d) = (fileSize d \<le> threshold)"
| "passes p v = False"

text \<open>
  Modelled from the spec: the \<^verbatim>\<open>each: true\<close> mode, missing with the decorators.
  Section 4.5: when the field is a sequence, the predicate must pass for every element;
  an empty sequence passes vacuously for the min/max/MIME checks but fails the presence
  check (no descriptor present to validate).
\<close>

fun passes_each :: "('mime, 'num::ord) predicate \<Rightarrow> ('mime, 'num) field_value list \<Rightarrow> bool" where
  "passes_each IsFileData vs = (vs \<noteq> [] \<and> list_all (passes IsFileData) vs)"
| "passes_each (HasMimeType allowed) vs = list_all (passes (HasMimeType allowed)) vs"
| "passes_each (MinFileSize threshold) vs = list_all (passes (MinFileSize threshold)) vs"
| "passes_each (MaxFileSize threshold) vs = list_all (passes (MaxFileSize threshold)) vs"

section \<open>Example values\<close>

text \<open>
  An upload \<^verbatim>\<open>a.png\<close> named by a timestamp, as the README's \<^verbatim>\<open>customFileName\<close> does, built
  with the public constructor.
\<close>

definition example_file :: "(string, int) FileData" where
  "example_file =
     FileData_new ''a.png'' ''1700-a'' ''1700-a.png'' ''7bit'' ''image/png'' ''png'' 3
       [137, 80, 78]"

text \<open>A descriptor the public constructor accepts, whose size is not its buffer's length.\<close>

definition mismatched_file :: "(string, int) FileData" where
  "mismatched_file =
     FileData_new ''a.png'' ''a'' ''a.png'' ''7bit'' ''image/png'' ''png'' 5 []"

text \<open>Two file parts, one with a dot in its name and one without.\<close>

definition png_part :: "string file_part" where
  "png_part = \<lparr> part_name = ''file'', part_filename = ''photo.final.png'',
     part_encoding = ''7bit'', part_mimetype = ''image/png'', part_content = [1, 2, 3] \<rparr>"

definition readme_part :: "string file_part" where
  "readme_part = \<lparr> part_name = ''file'', part_filename = ''README'',
     part_encoding = ''7bit'', part_mimetype = ''text/plain'', part_content = [] \<rparr>"

section \<open>Properties of the class\<close>

lemma after_saves_same: "after_saves n d = d"
  by (induction n arbitrary: d) (simp_all add: save_def)

text \<open>
  C10. The constructor stores its eight arguments verbatim, with no validation and no
  normalisation: whatever the arguments are (a \<open>fileSize\<close> that is not the length of the
  buffer, a \<open>fileExtension\<close> that has nothing to do with \<open>originalFileName\<close>), it yields
  a descriptor, and each public field of it is the argument at that position.
\<close>

theorem FileData_new_fields:
  fixes m :: 'mime and s :: 'num
  shows "originalFileName (FileData_new ofn fn fnf enc m ext s buf) = ofn
    \<and> fileName (FileData_new ofn fn fnf enc m ext s buf) = fn
    \<and> fileNameFull (FileData_new ofn fn fnf enc m ext s buf) = fnf
    \<and> encoding (FileData_new ofn fn fnf enc m ext s buf) = enc
    \<and> mimetype (FileData_new ofn fn fnf enc m ext s buf) = m
    \<and> fileExtension (FileData_new ofn fn fnf enc m ext s buf) = ext
    \<and> fileSize (FileData_new ofn fn fnf enc m ext s buf) = s
    \<and> buffer (FileData_new ofn fn fnf enc m ext s buf) = buf"
  by (simp add: FileData_new_def)

text \<open>
  C8. For every descriptor, whatever its fields hold and however many times \<^verbatim>\<open>save()\<close>
  has been called on it before, \<^verbatim>\<open>save()\<close> returns the empty string; it invokes no
  saver and writes nothing, and two descriptors with different contents get the same
  result.
\<close>

theorem save_returns_empty_string:
  fixes d d' :: "('mime, 'num) FileData"
  shows "returned (save (after_saves n d)) = Inr ''''
    \<and> effects (save (after_saves n d)) = []
    \<and> returned (save d) = returned (save d')"
  by (simp add: save_def)

text \<open>
  C9. \<^verbatim>\<open>save()\<close> is total and never throws: for every descriptor (an empty buffer, a
  zero or negative \<open>fileSize\<close>, an empty \<open>originalFileName\<close> included) the call returns
  a string, and no error is its result.
\<close>

theorem save_never_throws:
  fixes d :: "('mime, 'num) FileData"
  shows "(\<exists>location. returned (save d) = Inr location) \<and> (\<forall>e. returned (save d) \<noteq> Inl e)"
  by (simp add: save_def)

text \<open>
  C3. \<^verbatim>\<open>save()\<close> leaves every field of the descriptor as it was: after any number \<open>n\<close>
  of calls, \<open>originalFileName\<close>, \<open>fileName\<close>, \<open>fileNameFull\<close>, \<open>encoding\<close>,
  \<open>mimetype\<close>, \<open>fileExtension\<close>, \<open>fileSize\<close> and \<open>buffer\<close> are those before the first call.
\<close>

theorem save_preserves_fields:
  fixes d :: "('mime, 'num) FileData"
  shows "originalFileName (after_saves n d) = originalFileName d
    \<and> fileName (after_saves n d) = fileName d
    \<and> fileNameFull (after_saves n d) = fileNameFull d
    \<and> encoding (after_saves n d) = encoding d
    \<and> mimetype (after_saves n d) = mimetype d
    \<and> fileExtension (after_saves n d) = fileExtension d
    \<and> fileSize (after_saves n d) = fileSize d
    \<and> buffer (after_saves n d) = buffer d"
  by (simp add: after_saves_same)


text \<open>
  C1. The claim: \<^verbatim>\<open>save()\<close> invokes the configured file saver exactly once and returns the
  location the saver produced, not some other fixed string. The method's own doc comment
  says "Saves the file data to the data storage", and the README calls
  \<^verbatim>\<open>createDto.file.save()\<close> to save a file. The method body does not do it: on the
  example file, \<^verbatim>\<open>save()\<close> returns the fixed string \<^verbatim>\<open>""\<close>, invokes no saver (zero
  invocations, not one), writes no file and leaves the descriptor as it was.
\<close>

theorem save_example_file_saves_nothing:
  "returned (save example_file) = Inr ''''
   \<and> saver_invocations (effects (save example_file)) = 0
   \<and> effects (save example_file) = []
   \<and> receiver (save example_file) = example_file"
  by (simp add: save_def saver_invocations_def)



section \<open>Properties of the descriptors the interceptor builds\<close>

lemma split_at_last:
  assumes "c \<in> set xs"
  shows "\<exists>stem. xs = stem @ c # rev (takeWhile (\<lambda>x. x \<noteq> c) (rev xs))"
proof -
  let ?tail = "takeWhile (\<lambda>x. x \<noteq> c) (rev xs)"
  let ?rest = "dropWhile (\<lambda>x. x \<noteq> c) (rev xs)"
  from assms have "?rest \<noteq> []"
    by (simp add: dropWhile_eq_Nil_conv)
  then obtain y ys where rest: "?rest = y # ys"
    by (cases ?rest) simp_all
  with hd_dropWhile [of "\<lambda>x. x \<noteq> c" "rev xs"] have "y = c"
    by simp
  with rest have "rev xs = ?tail @ c # ys"
    using takeWhile_dropWhile_id [of "\<lambda>x. x \<noteq> c" "rev xs"] by simp
  then have "rev (rev xs) = rev (?tail @ c # ys)"
    by (rule arg_cong)
  then have "xs = rev ys @ c # rev ?tail"
    by simp
  then show ?thesis ..
qed

lemma no_dot_after_last: "c \<notin> set (rev (takeWhile (\<lambda>x. x \<noteq> c) ys))"
  by (auto dest: set_takeWhileD)

lemma extension_of_no_dot: "CHR ''.'' \<notin> set name \<Longrightarrow> extension_of name = ''''"
  by (simp add: extension_of_def)

lemma extension_of_dot:
  assumes "CHR ''.'' \<in> set name"
  shows "(\<exists>stem. name = stem @ CHR ''.'' # extension_of name)
    \<and> CHR ''.'' \<notin> set (extension_of name)"
  using assms split_at_last [OF assms] no_dot_after_last [of "CHR ''.''" "rev name"]
  by (simp add: extension_of_def)

lemma describe_file_fields:
  "originalFileName (describe_file naming ctx part) = part_filename part"
  "fileExtension (describe_file naming ctx part) = extension_of (part_filename part)"
  "fileSize (describe_file naming ctx part) = int (length (part_content part))"
  "buffer (describe_file naming ctx part) = part_content part"
  by (simp_all add: describe_file_def FileData_new_def Let_def)

text \<open>
  C5. For every descriptor the interceptor builds from a file part, whatever naming
  function is configured: if \<open>originalFileName\<close> contains no \<^verbatim>\<open>.\<close>, \<open>fileExtension\<close> is
  the empty string; if it contains one, \<open>originalFileName\<close> is some stem, a \<^verbatim>\<open>.\<close>, and
  \<open>fileExtension\<close>, and \<open>fileExtension\<close> contains no \<^verbatim>\<open>.\<close>: it is what follows the last
  \<^verbatim>\<open>.\<close> of \<open>originalFileName\<close>.
\<close>

theorem pipeline_extension:
  fixes part :: "'mime file_part"
  shows "(CHR ''.'' \<notin> set (originalFileName (describe_file naming ctx part))
      \<longrightarrow> fileExtension (describe_file naming ctx part) = '''')
    \<and> (CHR ''.'' \<in> set (originalFileName (describe_file naming ctx part))
      \<longrightarrow> (\<exists>stem. originalFileName (describe_file naming ctx part)
              = stem @ CHR ''.'' # fileExtension (describe_file naming ctx part))
          \<and> CHR ''.'' \<notin> set (fileExtension (describe_file naming ctx part)))"
  by (simp add: describe_file_fields extension_of_no_dot extension_of_dot)

theorem pipeline_extension_witness:
  "CHR ''.'' \<in> set (originalFileName (describe_file None () png_part))
   \<and> originalFileName (describe_file None () png_part) = ''photo.final.png''
   \<and> fileExtension (describe_file None () png_part) = ''png''
   \<and> CHR ''.'' \<notin> set (originalFileName (describe_file None () readme_part))
   \<and> fileExtension (describe_file None () readme_part) = ''''"
proof -
  have dotted: "CHR ''.'' \<in> set (originalFileName (describe_file None () png_part))"
    by (simp add: describe_file_fields png_part_def)
  have plain: "CHR ''.'' \<notin> set (originalFileName (describe_file None () readme_part))"
    by (simp add: describe_file_fields readme_part_def)
  have png: "fileExtension (describe_file None () png_part) = ''png''"
    by (simp add: describe_file_fields png_part_def extension_of_def)
  from pipeline_extension [of None "()" readme_part] plain
  have "fileExtension (describe_file None () readme_part) = ''''"
    by blast
  moreover from pipeline_extension [of None "()" png_part] dotted
  have "\<exists>stem. originalFileName (describe_file None () png_part)
      = stem @ CHR ''.'' # fileExtension (describe_file None () png_part)"
    by blast
  ultimately show ?thesis
    using dotted plain png by (simp add: describe_file_fields png_part_def)
qed

text \<open>
  C2 does not hold of the public constructor: it accepts a \<open>fileSize\<close> of 5 with an empty
  buffer.
\<close>

theorem fileSize_counterexample:
  "fileSize mismatched_file \<noteq> int (length (buffer mismatched_file))"
  by (simp add: mismatched_file_def FileData_new_def)

text \<open>
  C2, amended. For every descriptor the interceptor builds from a file part, \<open>fileSize\<close>
  is the exact byte length of \<open>buffer\<close>. The public constructor stores \<open>fileSize\<close> as it
  is given: of a value it yields, \<open>fileSize\<close> is the byte length of \<open>buffer\<close> exactly when
  the \<open>fileSize\<close> argument was the length of the \<open>buffer\<close> argument.
\<close>

theorem fileSize_buffer_length:
  fixes part :: "'mime file_part" and m :: 'mime
  shows "fileSize (describe_file naming ctx part)
      = int (length (buffer (describe_file naming ctx part)))
    \<and> (fileSize (FileData_new ofn fn fnf enc m ext s buf)
        = int (length (buffer (FileData_new ofn fn fnf enc m ext s buf)))
      \<longleftrightarrow> s = int (length buf))"
  by (simp add: describe_file_fields FileData_new_def)

section \<open>Properties of the validation predicates\<close>

text \<open>
  C7. Applied with \<^verbatim>\<open>each: true\<close> to an empty sequence, the minimum-size, maximum-size and
  MIME-type predicates pass, for every threshold and every allow-set, and the presence
  predicate \<open>IsFileData\<close> fails.
\<close>

theorem each_on_empty_sequence:
  fixes threshold :: "'num::ord" and allowed :: "'mime list"
  shows "passes_each (MinFileSize threshold :: ('mime, 'num) predicate) []
    \<and> passes_each (MaxFileSize threshold :: ('mime, 'num) predicate) []
    \<and> passes_each (HasMimeType allowed :: ('mime, 'num) predicate) []
    \<and> \<not> passes_each (IsFileData :: ('mime, 'num) predicate) []"
  by simp

end
